theory Spec2Isabelle
  imports Main "HOL-Library.List_Lexorder" "HOL-Library.Char_ord" "HOL-Library.AList"
begin

section \<open>Errors, text and the file system\<close>

text \<open>
  The exceptions the Python code can meet.  \<open>OSError\<close> stands for every subclass the
  operating-system layer raises (missing file, not a directory, file exists, same file),
  \<open>IndexError\<close> for an out-of-range subscript, \<open>ValueError\<close> for a failed tuple unpacking
  and for the exception \<open>merge_common_changes\<close> raises itself, \<open>DistutilsFileError\<close> for
  the failures of \<open>copy_tree\<close>.
\<close>

datatype error = OSError | IndexError | ValueError | DistutilsFileError

text \<open>
  A file-system object is a regular file with its text or a directory with its entries.
  Paths are lists of names below the repository's home directory; a name is one path
  component (it holds no slash).
\<close>

datatype node = File string | Dir "(string \<times> node) list"

type_synonym path = "string list"

fun lookup :: "node \<Rightarrow> path \<Rightarrow> node option" where
  "lookup n [] = Some n"
| "lookup (File c) (x # p) = None"
| "lookup (Dir es) (x # p) = (case map_of es x of None \<Rightarrow> None | Some n \<Rightarrow> lookup n p)"

definition isdir :: "node \<Rightarrow> path \<Rightarrow> bool" where
  "isdir fs p = (case lookup fs p of Some (Dir es) \<Rightarrow> True | _ \<Rightarrow> False)"

definition isfile :: "node \<Rightarrow> path \<Rightarrow> bool" where
  "isfile fs p = (case lookup fs p of Some (File c) \<Rightarrow> True | _ \<Rightarrow> False)"

definition read_file :: "node \<Rightarrow> path \<Rightarrow> error + string" where
  "read_file fs p = (case lookup fs p of Some (File c) \<Rightarrow> Inr c | _ \<Rightarrow> Inl OSError)"

text \<open>\<open>put fs p n\<close> stores \<open>n\<close> at \<open>p\<close>; the parent directory of \<open>p\<close> must exist.\<close>

fun put :: "node \<Rightarrow> path \<Rightarrow> node \<Rightarrow> error + node" where
  "put fs [] n = Inr n"
| "put (File c) (x # p) n = Inl OSError"
| "put (Dir es) [x] n = Inr (Dir (AList.update x n es))"
| "put (Dir es) (x # y # p) n =
     (case map_of es x of
        None \<Rightarrow> Inl OSError
      | Some d \<Rightarrow> (case put d (y # p) n of
                    Inl e \<Rightarrow> Inl e
                  | Inr d' \<Rightarrow> Inr (Dir (AList.update x d' es))))"

text \<open>\<open>open(p, "w")\<close> followed by one \<open>write\<close>: creates or truncates a regular file.\<close>

definition write_file :: "node \<Rightarrow> path \<Rightarrow> string \<Rightarrow> error + node" where
  "write_file fs p c = (if isdir fs p then Inl OSError else put fs p (File c))"

text \<open>\<open>os.mkdir\<close>: the directory must not exist, its parent must.\<close>

definition mkdir :: "node \<Rightarrow> path \<Rightarrow> error + node" where
  "mkdir fs p = (if lookup fs p \<noteq> None then Inl OSError else put fs p (Dir []))"

subsection \<open>Strings\<close>

text \<open>
  \<open>str.split(sep)\<close> for a one-character separator: the result is never empty.
\<close>

fun split :: "char \<Rightarrow> string \<Rightarrow> string list" where
  "split sep [] = [[]]"
| "split sep (c # cs) =
     (if c = sep then [] # split sep cs
      else (case split sep cs of w # ws \<Rightarrow> (c # w) # ws | [] \<Rightarrow> [[c]]))"

text \<open>
  \<open>str.splitlines()\<close> on text read in text mode.  Reading in text mode has already
  turned every carriage return into a line feed, so files are taken to hold none; the
  other ASCII line boundaries of Python stay boundaries.  A text that ends in a boundary
  has no empty last line.
\<close>

definition is_linebreak :: "char \<Rightarrow> bool" where
  "is_linebreak c = (c \<in> {CHR 0x0A, CHR 0x0B, CHR 0x0C, CHR 0x1C, CHR 0x1D, CHR 0x1E})"

fun splitlines :: "string \<Rightarrow> string list" where
  "splitlines [] = []"
| "splitlines (c # cs) =
     (if is_linebreak c then [] # splitlines cs
      else (case splitlines cs of [] \<Rightarrow> [[c]] | w # ws \<Rightarrow> (c # w) # ws))"

fun join :: "string \<Rightarrow> string list \<Rightarrow> string" where
  "join sep [] = []"
| "join sep [x] = x"
| "join sep (x # y # xs) = x @ sep @ join sep (y # xs)"

section \<open>The commit graph\<close>

text \<open>
  The layout below the home directory: \<open>.wit/images\<close> holds one directory per commit,
  one metadata file \<open>id.txt\<close> per commit and \<open>references.txt\<close>; \<open>.wit/staging_area\<close> is
  the staging area; \<open>.wit/activated.txt\<close> names the activated branch.
\<close>

definition wit_images :: path where
  "wit_images = [''.wit'', ''images'']"

definition wit_staging :: path where
  "wit_staging = [''.wit'', ''staging_area'']"


definition wit_activated :: path where
  "wit_activated = [''.wit'', ''activated.txt'']"

text \<open>\<open>get_head_commit_id\<close>: the text after the first \<open>=\<close> of line 0.\<close>

definition get_head_commit_id :: "node \<Rightarrow> path \<Rightarrow> error + string" where
  "get_head_commit_id fs references_path =
     (case read_file fs references_path of
        Inl e \<Rightarrow> Inl e
      | Inr content \<Rightarrow>
          (case splitlines content of
             [] \<Rightarrow> Inl IndexError
           | l0 # ls \<Rightarrow> (case split CHR ''='' l0 of
                          k # v # r \<Rightarrow> Inr v
                        | _ \<Rightarrow> Inl IndexError)))"

text \<open>
  \<open>get_parents\<close>: line 0 of the commit's metadata file, the text after its first \<open>=\<close>,
  split at commas; the sentinel \<open>None\<close> in front means no parent.
\<close>

definition get_parents :: "node \<Rightarrow> path \<Rightarrow> string \<Rightarrow> error + string list" where
  "get_parents fs images_dir commit_id =
     (case read_file fs (images_dir @ [commit_id @ ''.txt'']) of
        Inl e \<Rightarrow> Inl e
      | Inr content \<Rightarrow>
          (case splitlines content of
             [] \<Rightarrow> Inl IndexError
           | l0 # ls \<Rightarrow>
               (case split CHR ''='' l0 of
                  k # v # r \<Rightarrow>
                    (let parents = split CHR '','' v
                     in if take 1 parents = [''None''] then Inr [] else Inr parents)
                | _ \<Rightarrow> Inl IndexError)))"

text \<open>
  \<open>get_all_commits_util\<close> appends the current commit to \<open>commits\<close> and recurses into the
  parents, in order.  Nothing in the code bounds the recursion, so the model takes fuel:
  \<open>None\<close> means the fuel ran out.  \<open>for_parents\<close> is the \<open>for parent in parents\<close> loop.
  (The recursion limit of the interpreter is not part of the model.)
\<close>

fun get_all_commits_util ::
    "nat \<Rightarrow> node \<Rightarrow> path \<Rightarrow> string \<Rightarrow> string list \<Rightarrow> (error + string list) option"
  and for_parents ::
    "nat \<Rightarrow> node \<Rightarrow> path \<Rightarrow> string list \<Rightarrow> string list \<Rightarrow> (error + string list) option"
where
  "get_all_commits_util 0 fs images_dir current_commit commits = None"
| "get_all_commits_util (Suc n) fs images_dir current_commit commits =
     (case get_parents fs images_dir current_commit of
        Inl e \<Rightarrow> Some (Inl e)
      | Inr parents \<Rightarrow>
          if parents = [] then Some (Inr (commits @ [current_commit]))
          else if length parents > 1
               then for_parents n fs images_dir parents (commits @ [current_commit])
               else get_all_commits_util n fs images_dir (hd parents) (commits @ [current_commit]))"
| "for_parents n fs images_dir [] commits = Some (Inr commits)"
| "for_parents n fs images_dir (parent # parents) commits =
     (case get_all_commits_util n fs images_dir parent commits of
        None \<Rightarrow> None
      | Some (Inl e) \<Rightarrow> Some (Inl e)
      | Some (Inr commits') \<Rightarrow> for_parents n fs images_dir parents commits')"

definition get_all_commits ::
    "nat \<Rightarrow> node \<Rightarrow> path \<Rightarrow> string option \<Rightarrow> (error + string list) option" where
  "get_all_commits n fs images_dir commit_id =
     (case (case commit_id of
              None \<Rightarrow> get_head_commit_id fs (images_dir @ [''references.txt''])
            | Some c \<Rightarrow> Inr c) of
        Inl e \<Rightarrow> Some (Inl e)
      | Inr commit \<Rightarrow> get_all_commits_util n fs images_dir commit [])"

text \<open>
  The search for the common commit in \<open>merge\<close>: every commit of the source history that
  is in the head history is assigned to \<open>common_commit\<close>, and the loop has no \<open>break\<close>.
\<close>

definition scan_common :: "string list \<Rightarrow> string list \<Rightarrow> string option" where
  "scan_common src_commits head_commits =
     fold (\<lambda>commit_id common_commit.
             if commit_id \<in> set head_commits then Some commit_id else common_commit)
          src_commits None"

definition find_merge_base ::
    "nat \<Rightarrow> node \<Rightarrow> path \<Rightarrow> string \<Rightarrow> (error + string option) option" where
  "find_merge_base n fs images_dir src_commit_id =
     (case get_all_commits n fs images_dir (Some src_commit_id) of
        None \<Rightarrow> None
      | Some (Inl e) \<Rightarrow> Some (Inl e)
      | Some (Inr src_commits) \<Rightarrow>
          (case get_all_commits n fs images_dir None of
             None \<Rightarrow> None
           | Some (Inl e) \<Rightarrow> Some (Inl e)
           | Some (Inr head_commits) \<Rightarrow> Some (Inr (scan_common src_commits head_commits))))"


text \<open>Putting an accumulator in front of a result of the walk.\<close>

fun prepend_to :: "string list \<Rightarrow> (error + string list) option \<Rightarrow> (error + string list) option" where
  "prepend_to acc None = None"
| "prepend_to acc (Some (Inl e)) = Some (Inl e)"
| "prepend_to acc (Some (Inr h)) = Some (Inr (acc @ h))"

section \<open>Comparing directory trees\<close>

text \<open>
  \<open>filecmp.dircmp\<close>: both listings without the names it hides or ignores by default,
  sorted; the names only on one side; the common names, told apart by kind.
  \<open>funny_files\<close> are the files \<open>cmpfiles\<close> could not read, of which a tree of regular
  files and directories has none.
\<close>

definition DEFAULT_IGNORES :: "string list" where
  "DEFAULT_IGNORES =
     [''RCS'', ''CVS'', ''tags'', ''.git'', ''.hg'', ''.bzr'', ''_darcs'', ''__pycache__'']"

fun child :: "node \<Rightarrow> string \<Rightarrow> node option" where
  "child (File c) x = None"
| "child (Dir es) x = map_of es x"

fun is_dir_node :: "node option \<Rightarrow> bool" where
  "is_dir_node (Some (Dir es)) = True"
| "is_dir_node n = False"

fun is_file_node :: "node option \<Rightarrow> bool" where
  "is_file_node (Some (File c)) = True"
| "is_file_node n = False"

record dircmp =
  left_only :: "string list"
  right_only :: "string list"
  common_dirs :: "string list"
  common_files :: "string list"
  common_funny :: "string list"
  funny_files :: "string list"

definition dir_list :: "(string \<times> node) list \<Rightarrow> string list" where
  "dir_list es =
     sort (filter (\<lambda>x. x \<notin> set ([''.'', ''..''] @ DEFAULT_IGNORES)) (map fst es))"

definition dircmp :: "node \<Rightarrow> node \<Rightarrow> error + dircmp" where
  "dircmp a b =
     (case (a, b) of
        (Dir l, Dir r) \<Rightarrow>
          (let left_list = dir_list l;
               right_list = dir_list r;
               common = filter (\<lambda>x. x \<in> set right_list) left_list
           in Inr \<lparr> left_only = filter (\<lambda>x. x \<notin> set right_list) left_list,
                    right_only = filter (\<lambda>x. x \<notin> set left_list) right_list,
                    common_dirs =
                      filter (\<lambda>x. is_dir_node (child a x) \<and> is_dir_node (child b x)) common,
                    common_files =
                      filter (\<lambda>x. is_file_node (child a x) \<and> is_file_node (child b x)) common,
                    common_funny =
                      filter (\<lambda>x. is_dir_node (child a x) \<noteq> is_dir_node (child b x)) common,
                    funny_files = [] \<rparr>)
      | _ \<Rightarrow> Inl OSError)"

text \<open>\<open>filecmp.cmpfiles(a, b, common, shallow=False)[1]\<close>: the names whose contents differ.\<close>

definition cmpfiles_mismatch :: "node \<Rightarrow> node \<Rightarrow> string list \<Rightarrow> string list" where
  "cmpfiles_mismatch a b common = filter (\<lambda>x. child a x \<noteq> child b x) common"

lemma child_size: "child d x = Some n \<Longrightarrow> size n < size d"
proof (cases d)
  case (File c)
  then show "child d x = Some n \<Longrightarrow> size n < size d" by simp
next
  case (Dir es)
  have "map_of es x = Some n \<Longrightarrow> size n < Suc (size_list (size_prod (\<lambda>_. 0) size) es)"
    by (induction es) (auto split: if_splits)
  with Dir show "child d x = Some n \<Longrightarrow> size n < size d" by simp
qed

text \<open>
  \<open>are_dir_trees_equal\<close> on the two directories read from the file system; the loop
  function is its \<open>for common_dir in dirs_cmp.common_dirs\<close>.
\<close>

function trees_equal :: "node \<Rightarrow> node \<Rightarrow> error + bool"
  and trees_equal_loop :: "node \<Rightarrow> node \<Rightarrow> string list \<Rightarrow> error + bool"
where
  "trees_equal dir1 dir2 =
     (case dircmp dir1 dir2 of
        Inl e \<Rightarrow> Inl e
      | Inr dirs_cmp \<Rightarrow>
          if length (left_only dirs_cmp) > 0 \<or> length (right_only dirs_cmp) > 0
             \<or> length (funny_files dirs_cmp) > 0
          then Inr False
          else if length (cmpfiles_mismatch dir1 dir2 (common_files dirs_cmp)) > 0
          then Inr False
          else trees_equal_loop dir1 dir2 (common_dirs dirs_cmp))"
| "trees_equal_loop dir1 dir2 [] = Inr True"
| "trees_equal_loop dir1 dir2 (common_dir # rest) =
     (case child dir1 common_dir of
        None \<Rightarrow> Inl OSError
      | Some new_dir1 \<Rightarrow>
          (case child dir2 common_dir of
             None \<Rightarrow> Inl OSError
           | Some new_dir2 \<Rightarrow>
               (case trees_equal new_dir1 new_dir2 of
                  Inl e \<Rightarrow> Inl e
                | Inr eq \<Rightarrow> if \<not> eq then Inr False else trees_equal_loop dir1 dir2 rest)))"
  by pat_completeness auto
termination
  by (relation "measures
        [\<lambda>x. case x of Inl (a, b) \<Rightarrow> size a | Inr (a, b, xs) \<Rightarrow> size a,
         \<lambda>x. case x of Inl (a, b) \<Rightarrow> 1 | Inr (a, b, xs) \<Rightarrow> 0,
         \<lambda>x. case x of Inl (a, b) \<Rightarrow> 0 | Inr (a, b, xs) \<Rightarrow> length xs]")
     (auto simp: child_size)

definition are_dir_trees_equal :: "node \<Rightarrow> path \<Rightarrow> path \<Rightarrow> error + bool" where
  "are_dir_trees_equal fs dir1 dir2 =
     (case lookup fs dir1 of
        None \<Rightarrow> Inl OSError
      | Some d1 \<Rightarrow> (case lookup fs dir2 of
                     None \<Rightarrow> Inl OSError
                   | Some d2 \<Rightarrow> trees_equal d1 d2))"

text \<open>
  \<open>get_dirs_diffs\<close>: the entries added to \<open>changes\<close> are \<open>os.path.join(dir2, item)\<close>, here
  the path of \<open>dir2\<close> with the name appended.
\<close>

function dirs_diffs :: "node \<Rightarrow> node \<Rightarrow> path \<Rightarrow> path list \<Rightarrow> bool \<Rightarrow> error + path list"
  and dirs_diffs_loop ::
    "node \<Rightarrow> node \<Rightarrow> path \<Rightarrow> string list \<Rightarrow> path list \<Rightarrow> bool \<Rightarrow> error + path list"
where
  "dirs_diffs d1 d2 dir2 changes by_content =
     (case dircmp d1 d2 of
        Inl e \<Rightarrow> Inl e
      | Inr dirs_cmp \<Rightarrow>
          (let changes' =
                 (if by_content
                  then changes @ map (\<lambda>item. dir2 @ [item])
                                   (cmpfiles_mismatch d1 d2 (common_files dirs_cmp))
                  else changes @ map (\<lambda>item. dir2 @ [item]) (right_only dirs_cmp))
           in if common_dirs dirs_cmp = [] then Inr changes'
              else dirs_diffs_loop d1 d2 dir2 (common_dirs dirs_cmp) changes' by_content))"
| "dirs_diffs_loop d1 d2 dir2 [] changes by_content = Inr changes"
| "dirs_diffs_loop d1 d2 dir2 (common_dir # rest) changes by_content =
     (case child d1 common_dir of
        None \<Rightarrow> Inl OSError
      | Some new_dir1 \<Rightarrow>
          (case child d2 common_dir of
             None \<Rightarrow> Inl OSError
           | Some new_dir2 \<Rightarrow>
               (case dirs_diffs new_dir1 new_dir2 (dir2 @ [common_dir]) changes by_content of
                  Inl e \<Rightarrow> Inl e
                | Inr changes' \<Rightarrow> dirs_diffs_loop d1 d2 dir2 rest changes' by_content)))"
  by pat_completeness auto
termination
  by (relation "measures
        [\<lambda>x. case x of Inl (a, r) \<Rightarrow> size a | Inr (a, r) \<Rightarrow> size a,
         \<lambda>x. case x of Inl (a, r) \<Rightarrow> 1 | Inr (a, r) \<Rightarrow> 0,
         \<lambda>x. case x of Inl (a, r) \<Rightarrow> 0 | Inr (a, b, p, xs, r) \<Rightarrow> length xs]")
     (auto simp: child_size)

definition get_dirs_diffs ::
    "node \<Rightarrow> path \<Rightarrow> path \<Rightarrow> path list \<Rightarrow> bool \<Rightarrow> error + path list" where
  "get_dirs_diffs fs dir1 dir2 changes by_content =
     (case lookup fs dir1 of
        None \<Rightarrow> Inl OSError
      | Some d1 \<Rightarrow> (case lookup fs dir2 of
                     None \<Rightarrow> Inl OSError
                   | Some d2 \<Rightarrow> dirs_diffs d1 d2 dir2 changes by_content))"

section \<open>The reference file, metadata and copying\<close>

text \<open>
  \<open>posixpath.join\<close> of two strings, and the string a path below the home directory is
  written as: the code keeps the paths of changed files as such strings.
\<close>

definition os_path_join :: "string \<Rightarrow> string \<Rightarrow> string" where
  "os_path_join a b =
     (if take 1 b = ''/'' then b
      else if a = [] \<or> last a = CHR ''/'' then a @ b
      else a @ ''/'' @ b)"

definition path_str :: "string \<Rightarrow> path \<Rightarrow> string" where
  "path_str home_dir p = foldl os_path_join home_dir p"

text \<open>
  \<open>get_branches\<close>: every line after line 0 must split into exactly a name and an
  identifier; the dictionary keeps the order of first insertion.
\<close>

fun parse_refs :: "string list \<Rightarrow> (string \<times> string) list \<Rightarrow> error + (string \<times> string) list" where
  "parse_refs [] params = Inr params"
| "parse_refs (line # content) params =
     (case split CHR ''='' line of
        [name, commit] \<Rightarrow> parse_refs content (AList.update name commit params)
      | _ \<Rightarrow> Inl ValueError)"

definition get_branches :: "node \<Rightarrow> path \<Rightarrow> error + (string \<times> string) list" where
  "get_branches fs references_path =
     (case read_file fs references_path of
        Inl e \<Rightarrow> Inl e
      | Inr text \<Rightarrow> parse_refs (drop 1 (splitlines text)) [])"

definition get_activated_branch :: "node \<Rightarrow> path \<Rightarrow> error + string" where
  "get_activated_branch fs home_dir = read_file fs (home_dir @ wit_activated)"

definition update_references :: "node \<Rightarrow> path \<Rightarrow> string \<Rightarrow> string \<Rightarrow> error + node" where
  "update_references fs references_path commit_id branch =
     (case read_file fs references_path of
        Inl e \<Rightarrow> Inl e
      | Inr text \<Rightarrow>
          (case parse_refs (splitlines text) [] of
             Inl e \<Rightarrow> Inl e
           | Inr params0 \<Rightarrow>
               (let params1 = AList.update ''HEAD'' commit_id params0;
                    params = (if branch \<in> fst ` set params1
                              then AList.update branch commit_id params1 else params1);
                    content = map (\<lambda>(key, value). key @ ''='' @ value) params
                in write_file fs references_path (join ''\<newline>'' content))))"

text \<open>
  \<open>create_image_dir\<close> draws the identifier at random; the model takes the drawn identifier
  as an argument.
\<close>

definition COMMIT_ID_CHARS :: string where
  "COMMIT_ID_CHARS = ''123456789abcdef''"

definition COMMIT_ID_LENGTH :: nat where
  "COMMIT_ID_LENGTH = 40"

definition create_image_dir :: "node \<Rightarrow> path \<Rightarrow> string \<Rightarrow> error + node" where
  "create_image_dir fs home_dir commit_id = mkdir fs (home_dir @ wit_images @ [commit_id])"

text \<open>\<open>create_meta_data\<close>; \<open>now\<close> is the text of \<open>time.ctime()\<close>.\<close>

definition create_meta_data ::
    "node \<Rightarrow> string \<Rightarrow> path \<Rightarrow> string \<Rightarrow> string option \<Rightarrow> string \<Rightarrow> error + node" where
  "create_meta_data fs commit_id images_dir message second_parent now =
     (let references_path = images_dir @ [''references.txt''] in
      case (if isfile fs references_path
            then (case get_head_commit_id fs references_path of
                    Inl e \<Rightarrow> Inl e
                  | Inr head \<Rightarrow>
                      (case second_parent of
                         None \<Rightarrow> Inr head
                       | Some p \<Rightarrow> Inr (join '','' [head, p])))
            else Inr ''None'') of
        Inl e \<Rightarrow> Inl e
      | Inr parent \<Rightarrow>
          write_file fs (images_dir @ [commit_id @ ''.txt''])
            (concat [''parent='' @ parent @ ''\<newline>'', ''date='' @ now @ ''\<newline>'',
                     ''message='' @ message @ ''\<newline>'']))"

text \<open>
  \<open>shutil.copy2\<close>: into the directory when the destination is one; the same file on both
  sides is an error.
\<close>

definition copy2 :: "node \<Rightarrow> path \<Rightarrow> path \<Rightarrow> error + node" where
  "copy2 fs src dst =
     (case read_file fs src of
        Inl e \<Rightarrow> Inl e
      | Inr c \<Rightarrow>
          (let dst' = (if isdir fs dst then dst @ [last src] else dst)
           in if dst' = src then Inl OSError else write_file fs dst' c))"

text \<open>
  \<open>distutils.dir_util.copy_tree\<close> of a directory onto what is at the destination: names
  that start with \<open>.nfs\<close> are skipped, directories are merged, files are overwritten.
\<close>

fun set_child :: "node \<Rightarrow> string \<Rightarrow> node \<Rightarrow> node" where
  "set_child (Dir es) x n = Dir (AList.update x n es)"
| "set_child (File c) x n = File c"

function copy_tree_node :: "node \<Rightarrow> node option \<Rightarrow> error + node"
  and copy_tree_loop :: "node \<Rightarrow> string list \<Rightarrow> node \<Rightarrow> error + node"
where
  "copy_tree_node src dst =
     (case src of
        File c \<Rightarrow> Inl DistutilsFileError
      | Dir es \<Rightarrow>
          (case dst of
             Some (File c) \<Rightarrow> Inl DistutilsFileError
           | None \<Rightarrow> copy_tree_loop src (map fst es) (Dir [])
           | Some (Dir ds) \<Rightarrow> copy_tree_loop src (map fst es) (Dir ds)))"
| "copy_tree_loop src [] d = Inr d"
| "copy_tree_loop src (n # names) d =
     (if take 4 n = ''.nfs'' then copy_tree_loop src names d
      else (case child src n of
              None \<Rightarrow> Inl DistutilsFileError
            | Some (Dir sub) \<Rightarrow>
                (case copy_tree_node (Dir sub) (child d n) of
                   Inl e \<Rightarrow> Inl e
                 | Inr d' \<Rightarrow> copy_tree_loop src names (set_child d n d'))
            | Some (File c) \<Rightarrow>
                (case child d n of
                   Some (Dir ds) \<Rightarrow>
                     (if is_dir_node (map_of ds n) then Inl DistutilsFileError
                      else copy_tree_loop src names
                             (set_child d n (Dir (AList.update n (File c) ds))))
                 | _ \<Rightarrow> copy_tree_loop src names (set_child d n (File c)))))"
  by pat_completeness auto
termination
  by (relation "measures
        [\<lambda>x. case x of Inl (a, r) \<Rightarrow> size a | Inr (a, r) \<Rightarrow> size a,
         \<lambda>x. case x of Inl (a, r) \<Rightarrow> 1 | Inr (a, r) \<Rightarrow> 0,
         \<lambda>x. case x of Inl (a, r) \<Rightarrow> 0 | Inr (a, xs, r) \<Rightarrow> length xs]")
     (auto dest: child_size)

text \<open>\<open>mkpath\<close> and the store of the copied tree: missing directories are created.\<close>

fun put_mk :: "node \<Rightarrow> path \<Rightarrow> node \<Rightarrow> error + node" where
  "put_mk fs [] n = Inr n"
| "put_mk (File c) (x # p) n = Inl DistutilsFileError"
| "put_mk (Dir es) (x # p) n =
     (case put_mk (case map_of es x of None \<Rightarrow> Dir [] | Some d \<Rightarrow> d) p n of
        Inl e \<Rightarrow> Inl e
      | Inr d' \<Rightarrow> Inr (Dir (AList.update x d' es)))"

definition copy_tree :: "node \<Rightarrow> path \<Rightarrow> path \<Rightarrow> error + node" where
  "copy_tree fs src dst =
     (case lookup fs src of
        None \<Rightarrow> Inl DistutilsFileError
      | Some s \<Rightarrow> (case copy_tree_node s (lookup fs dst) of
                    Inl e \<Rightarrow> Inl e
                  | Inr d \<Rightarrow> put_mk fs dst d))"

text \<open>
  \<open>execute_checkout\<close>.  The source directory is read when the call starts and drives the
  recursion (the copies go to another directory); an \<open>OSError\<close> stops the copying and
  keeps the copies made so far.  \<open>ignore\<close> is the list of strings the caller passes, and
  \<open>item\<close> the bare name \<open>os.listdir\<close> gives.
\<close>

function execute_checkout_node ::
    "node \<Rightarrow> node \<Rightarrow> path \<Rightarrow> path \<Rightarrow> string list \<Rightarrow> error option \<times> node"
  and execute_checkout_loop ::
    "node \<Rightarrow> string list \<Rightarrow> node \<Rightarrow> path \<Rightarrow> path \<Rightarrow> string list \<Rightarrow> error option \<times> node"
where
  "execute_checkout_node srcn fs src dst ignore =
     (case srcn of
        File c \<Rightarrow> (Some OSError, fs)
      | Dir es \<Rightarrow> execute_checkout_loop srcn (map fst es) fs src dst ignore)"
| "execute_checkout_loop srcn [] fs src dst ignore = (None, fs)"
| "execute_checkout_loop srcn (item # items) fs src dst ignore =
     (let s = src @ [item]; d = dst @ [item] in
      case child srcn item of
        None \<Rightarrow> (Some OSError, fs)
      | Some (Dir es) \<Rightarrow>
          (case execute_checkout_node (Dir es) fs s d ignore of
             (Some e, fs') \<Rightarrow> (Some e, fs')
           | (None, fs') \<Rightarrow> execute_checkout_loop srcn items fs' src dst ignore)
      | Some (File c) \<Rightarrow>
          if item \<notin> set ignore
          then (case copy2 fs s d of
                  Inl e \<Rightarrow> (Some e, fs)
                | Inr fs' \<Rightarrow> execute_checkout_loop srcn items fs' src dst ignore)
          else execute_checkout_loop srcn items fs src dst ignore)"
  by pat_completeness auto
termination
  by (relation "measures
        [\<lambda>x. case x of Inl (a, r) \<Rightarrow> size a | Inr (a, r) \<Rightarrow> size a,
         \<lambda>x. case x of Inl (a, r) \<Rightarrow> 1 | Inr (a, r) \<Rightarrow> 0,
         \<lambda>x. case x of Inl (a, r) \<Rightarrow> 0 | Inr (a, xs, r) \<Rightarrow> length xs]")
     (auto dest: child_size)

definition execute_checkout ::
    "node \<Rightarrow> path \<Rightarrow> path \<Rightarrow> string list \<Rightarrow> error option \<times> node" where
  "execute_checkout fs src dst ignore =
     (case lookup fs src of
        None \<Rightarrow> (Some OSError, fs)
      | Some srcn \<Rightarrow> execute_checkout_node srcn fs src dst ignore)"

section \<open>The three-way merge of one file\<close>

text \<open>
  The \<open>while\<close> loop of \<open>merge_common_changes\<close>; \<open>merge_line\<close> is its body, the line
  appended at index \<open>i\<close> or the exception raised there.  A subscript out of range raises
  \<open>IndexError\<close>; the code catches it for \<open>branch_content[i]\<close> and \<open>head_content[i]\<close> and
  not for \<open>common_content[i]\<close>.
\<close>

definition merge_line ::
    "string list \<Rightarrow> string list \<Rightarrow> string list \<Rightarrow> nat \<Rightarrow> error + string" where
  "merge_line common_content branch_content head_content i =
     (if \<not> i < length branch_content then Inr (head_content ! i)
      else if \<not> i < length head_content then Inr (branch_content ! i)
      else if \<not> i < length common_content then Inl IndexError
      else (let branch_line = branch_content ! i;
                head_line = head_content ! i;
                common_line = common_content ! i
            in if common_line \<noteq> head_line \<and> common_line \<noteq> branch_line
               then Inl ValueError
               else if common_line = head_line \<and> common_line \<noteq> branch_line
               then Inr branch_line
               else Inr head_line))"

function merge_loop ::
    "string list \<Rightarrow> string list \<Rightarrow> string list \<Rightarrow> nat \<Rightarrow> string list \<Rightarrow> error + string list" where
  "merge_loop common_content branch_content head_content i merged_content =
     (if i < length branch_content \<or> i < length head_content
      then (case merge_line common_content branch_content head_content i of
              Inl e \<Rightarrow> Inl e
            | Inr line \<Rightarrow>
                merge_loop common_content branch_content head_content (Suc i)
                  (merged_content @ [line]))
      else Inr merged_content)"
  by pat_completeness auto
termination
  by (relation "measure (\<lambda>(c, b, h, i, m). max (length b) (length h) - i)") auto

text \<open>
  \<open>merge_common_changes\<close> reads the three files, merges and writes \<open>dst\<close> last: when it
  raises, the file system is as it was.
\<close>

definition merge_common_changes ::
    "node \<Rightarrow> path \<Rightarrow> path \<Rightarrow> path \<Rightarrow> path \<Rightarrow> error option \<times> node" where
  "merge_common_changes fs common_file branch_file head_file dst =
     (case read_file fs common_file of
        Inl e \<Rightarrow> (Some e, fs)
      | Inr ct \<Rightarrow>
     (case read_file fs branch_file of
        Inl e \<Rightarrow> (Some e, fs)
      | Inr bt \<Rightarrow>
     (case read_file fs head_file of
        Inl e \<Rightarrow> (Some e, fs)
      | Inr ht \<Rightarrow>
     (case merge_loop (splitlines ct) (splitlines bt) (splitlines ht) 0 [] of
        Inl e \<Rightarrow> (Some e, fs)
      | Inr merged_content \<Rightarrow>
          (case write_file fs dst (join ''\<newline>'' merged_content) of
             Inl e \<Rightarrow> (Some e, fs)
           | Inr fs' \<Rightarrow> (None, fs'))))))"

section \<open>The commands\<close>

text \<open>
  The commands are run in the home directory of a repository, the root of the file
  system of the model (\<open>split_path\<close> has found it).  A command gives what it reports and
  the file system it leaves; an exception nothing catches ends the process
  (\<open>Crashed\<close>, with the state before the failing step).
\<close>

datatype outcome =
    Crashed error
  | NoCommitFound
  | NoChange
  | Committed string
  | BranchInUse
  | BranchCreated
  | StatusFailed
  | UncommittedChanges
  | CopyAborted
  | StagingCopyAborted
  | CheckoutCompleted
  | WrongCommit
  | NoCommonBasis
  | Merged string

definition home_dir :: path where
  "home_dir = []"

text \<open>
  \<open>status\<close>: what is printed, and what is returned (the three lists, for \<open>checkout\<close>).
  A path in a list stands for the string \<open>os.path.join\<close> builds from the path of the
  home directory and these names.
\<close>

datatype status_print =
    NoCommitWasFound
  | StatusReport string "path list" "path list" "path list"

definition status ::
    "node \<Rightarrow> bool \<Rightarrow> error + status_print option \<times> (path list \<times> path list \<times> path list) option" where
  "status fs checkout =
     (let staging_dir = home_dir @ wit_staging;
          images_dir = home_dir @ wit_images;
          references_path = images_dir @ [''references.txt'']
      in if \<not> isfile fs references_path then Inr (Some NoCommitWasFound, None)
         else
     (case get_head_commit_id fs references_path of
        Inl e \<Rightarrow> Inl e
      | Inr head_commit_id \<Rightarrow>
     (case get_dirs_diffs fs (images_dir @ [head_commit_id]) staging_dir [] False of
        Inl e \<Rightarrow> Inl e
      | Inr changes_to_commit \<Rightarrow>
     (case get_dirs_diffs fs staging_dir home_dir [] True of
        Inl e \<Rightarrow> Inl e
      | Inr changes_not_staged \<Rightarrow>
     (case get_dirs_diffs fs staging_dir home_dir [] False of
        Inl e \<Rightarrow> Inl e
      | Inr untracked_files \<Rightarrow>
          if checkout
          then Inr (None, Some (changes_to_commit, changes_not_staged, untracked_files))
          else Inr (Some (StatusReport head_commit_id changes_to_commit changes_not_staged
                            untracked_files), None))))))"

text \<open>\<open>commit\<close>; \<open>new_id\<close> is the identifier drawn, \<open>now\<close> the text of the clock.\<close>

definition commit ::
    "node \<Rightarrow> string \<Rightarrow> string option \<Rightarrow> string \<Rightarrow> string \<Rightarrow> outcome \<times> node" where
  "commit fs message second_parent new_id now =
     (let staging_dir = home_dir @ wit_staging;
          images_dir = home_dir @ wit_images;
          references_path = images_dir @ [''references.txt'']
      in
      case (if isfile fs references_path
            then (case get_head_commit_id fs references_path of
                    Inl e \<Rightarrow> Inl e
                  | Inr head_commit \<Rightarrow>
                      are_dir_trees_equal fs (images_dir @ [head_commit]) staging_dir)
            else Inr False) of
        Inl e \<Rightarrow> (Crashed e, fs)
      | Inr True \<Rightarrow> (NoChange, fs)
      | Inr False \<Rightarrow>
     (case create_image_dir fs home_dir new_id of
        Inl e \<Rightarrow> (Crashed e, fs)
      | Inr fs1 \<Rightarrow>
     (case create_meta_data fs1 new_id images_dir message second_parent now of
        Inl e \<Rightarrow> (Crashed e, fs1)
      | Inr fs2 \<Rightarrow>
     (case copy_tree fs2 staging_dir (images_dir @ [new_id]) of
        Inl e \<Rightarrow> (Crashed e, fs2)
      | Inr fs3 \<Rightarrow>
     (case get_activated_branch fs3 home_dir of
        Inl e \<Rightarrow> (Crashed e, fs3)
      | Inr activated_branch \<Rightarrow>
     (case (if isfile fs3 references_path
            then update_references fs3 references_path new_id activated_branch
            else write_file fs3 references_path
                   (join ''\<newline>'' [''HEAD='' @ new_id, ''master='' @ new_id])) of
        Inl e \<Rightarrow> (Crashed e, fs3)
      | Inr fs4 \<Rightarrow> (Committed new_id, fs4)))))))"

text \<open>
  \<open>checkout\<close>; \<open>home_str\<close> is the string of the home directory's path, with which the
  untracked files are written in the list passed as \<open>ignore\<close>.
\<close>

definition checkout :: "string \<Rightarrow> node \<Rightarrow> string \<Rightarrow> outcome \<times> node" where
  "checkout home_str fs param =
     (let staging_dir = home_dir @ wit_staging;
          images_dir = home_dir @ wit_images;
          references_path = images_dir @ [''references.txt'']
      in
      case status fs True of
        Inl e \<Rightarrow> (Crashed e, fs)
      | Inr (printed, None) \<Rightarrow> (StatusFailed, fs)
      | Inr (printed, Some (changes_to_commit, changes_not_staged, untracked_files)) \<Rightarrow>
          if length changes_to_commit > 0 \<or> length changes_not_staged > 0
          then (UncommittedChanges, fs)
          else
     (case get_branches fs references_path of
        Inl e \<Rightarrow> (Crashed e, fs)
      | Inr branches \<Rightarrow>
     (let is_branch = (param \<in> fst ` set branches);
          commit_id = (case map_of branches param of Some c \<Rightarrow> c | None \<Rightarrow> param);
          commit_dir = images_dir @ [commit_id]
      in
      case execute_checkout fs commit_dir home_dir (map (path_str home_str) untracked_files) of
        (Some e, fs1) \<Rightarrow> (if e = OSError then (CopyAborted, fs1) else (Crashed e, fs1))
      | (None, fs1) \<Rightarrow>
     (case execute_checkout fs1 commit_dir staging_dir [] of
        (Some e, fs2) \<Rightarrow> (if e = OSError then (StagingCopyAborted, fs2) else (Crashed e, fs2))
      | (None, fs2) \<Rightarrow>
          if is_branch
          then (case update_references fs2 references_path commit_id param of
                  Inl e \<Rightarrow> (Crashed e, fs2)
                | Inr fs3 \<Rightarrow>
                    (case write_file fs3 (home_dir @ wit_activated) param of
                       Inl e \<Rightarrow> (Crashed e, fs3)
                     | Inr fs4 \<Rightarrow> (CheckoutCompleted, fs4)))
          else (case get_activated_branch fs2 references_path of
                  Inl e \<Rightarrow> (Crashed e, fs2)
                | Inr activated_branch \<Rightarrow>
                    (case update_references fs2 references_path commit_id activated_branch of
                       Inl e \<Rightarrow> (Crashed e, fs2)
                     | Inr fs3 \<Rightarrow> (CheckoutCompleted, fs3)))))))"

text \<open>\<open>branch\<close>: the file is opened for appending, and the new line goes to its end.\<close>

definition first_field :: "string \<Rightarrow> string" where
  "first_field line = (case split CHR ''='' line of w # ws \<Rightarrow> w | [] \<Rightarrow> [])"

definition branch :: "node \<Rightarrow> string \<Rightarrow> outcome \<times> node" where
  "branch fs name =
     (let images_dir = home_dir @ wit_images;
          references_path = images_dir @ [''references.txt'']
      in if \<not> isfile fs references_path then (NoCommitFound, fs)
         else
     (case read_file fs references_path of
        Inl e \<Rightarrow> (Crashed e, fs)
      | Inr text \<Rightarrow>
     (let content = splitlines text in
      case content of
        [] \<Rightarrow> (Crashed IndexError, fs)
      | l0 # ls \<Rightarrow>
          (case split CHR ''='' l0 of
             k # head_commit_id # r \<Rightarrow>
               (let all_branches = map first_field content
                in if name \<in> set all_branches then (BranchInUse, fs)
                   else (case write_file fs references_path
                                (text @ ''\<newline>'' @ name @ ''='' @ head_commit_id) of
                           Inl e \<Rightarrow> (Crashed e, fs)
                         | Inr fs' \<Rightarrow> (BranchCreated, fs')))
           | _ \<Rightarrow> (Crashed IndexError, fs)))))"







text \<open>An identifier \<open>create_image_dir\<close> can draw.\<close>

definition commit_id_ok :: "string \<Rightarrow> bool" where
  "commit_id_ok commit_id =
     (length commit_id = COMMIT_ID_LENGTH \<and> set commit_id \<subseteq> set COMMIT_ID_CHARS)"

section \<open>Example repositories\<close>

text \<open>Identifiers as \<open>create_image_dir\<close> draws them, and a metadata file as \<open>commit\<close> writes it.\<close>

definition id_r :: string where
  "id_r = ''53a2961817227d24af96f1d5325d39a69114b759''"

definition id_h :: string where
  "id_h = ''75cb498eb5f27c381bc9e5b997df8a1bafd56b17''"

definition id_s :: string where
  "id_s = ''321c246e279edd576ef33448941769fb8ab1ecec''"

definition id_c1 :: string where
  "id_c1 = ''662a12436113261ea34662df782264d31f83918f''"

definition id_c2 :: string where
  "id_c2 = ''db463c8c54dfdddc4861154bf7fff64434aed8ac''"


definition meta :: "string \<Rightarrow> string \<Rightarrow> string \<times> node" where
  "meta c ps =
     (c @ ''.txt'',
      File (''parent='' @ ps @ ''\<newline>date=Mon Nov  2 10:00:00 2026\<newline>message=work\<newline>''))"

text \<open>
  A diamond, with short labels for the identifiers: \<open>a\<close> and \<open>b\<close> both descend from \<open>r\<close>,
  and \<open>m\<close> merges them.
\<close>

definition diamond :: node where
  "diamond = Dir [(''.wit'', Dir [(''images'', Dir [
      meta ''r'' ''None'', meta ''a'' ''r'', meta ''b'' ''r'', meta ''m'' ''a,b'',
      (''references.txt'', File ''HEAD=m\<newline>master=m'')])])]"

text \<open>
  A chain \<open>id_r\<close>, \<open>id_h\<close>, \<open>id_s\<close>: the head is at \<open>id_h\<close>, the branch \<open>feature\<close> at its child
  \<open>id_s\<close>.
\<close>

definition chain :: node where
  "chain = Dir [(''.wit'', Dir [(''images'', Dir [
      meta id_r ''None'', meta id_h id_r, meta id_s id_h,
      (''references.txt'',
       File (''HEAD='' @ id_h @ ''\<newline>master='' @ id_h @ ''\<newline>feature='' @ id_s))])])]"

text \<open>
  A repository at \<open>/repo\<close>: the head is at \<open>id_c1\<close> on \<open>master\<close>, the branch \<open>feature\<close> is at
  \<open>id_c2\<close>, which holds a file \<open>notes.txt\<close>; the working tree is clean, and holds a file
  \<open>notes.txt\<close> of its own that was never staged.
\<close>

definition notes_refs :: string where
  "notes_refs = ''HEAD='' @ id_c1 @ ''\<newline>master='' @ id_c1 @ ''\<newline>feature='' @ id_c2"

definition notes_repo :: node where
  "notes_repo = Dir [
     (''.wit'', Dir [
        (''images'', Dir [
           (id_c1, Dir [(''a.txt'', File ''one'')]),
           meta id_c1 ''None'',
           (id_c2, Dir [(''a.txt'', File ''one''), (''notes.txt'', File ''from feature'')]),
           meta id_c2 id_c1,
           (''references.txt'', File notes_refs)]),
        (''staging_area'', Dir [(''a.txt'', File ''one'')]),
        (''activated.txt'', File ''master'')]),
     (''a.txt'', File ''one''),
     (''notes.txt'', File ''my private notes'')]"

text \<open>What \<open>checkout feature\<close> leaves of \<open>notes_repo\<close>.\<close>

definition notes_repo_after :: node where
  "notes_repo_after = Dir [
     (''.wit'', Dir [
        (''images'', Dir [
           (id_c1, Dir [(''a.txt'', File ''one'')]),
           meta id_c1 ''None'',
           (id_c2, Dir [(''a.txt'', File ''one''), (''notes.txt'', File ''from feature'')]),
           meta id_c2 id_c1,
           (''references.txt'',
            File (''HEAD='' @ id_c2 @ ''\<newline>master='' @ id_c1 @ ''\<newline>feature='' @ id_c2))]),
        (''staging_area'', Dir [(''a.txt'', File ''one''), (''notes.txt'', File ''from feature'')]),
        (''activated.txt'', File ''feature'')]),
     (''a.txt'', File ''one''),
     (''notes.txt'', File ''from feature'')]"



text \<open>
  Three versions of one file: the ancestor has one line, and both edited versions have
  two (\<open>head.txt\<close> the same two as \<open>branch.txt\<close>, \<open>other.txt\<close> another second line).
\<close>

definition three_files :: node where
  "three_files = Dir [
     (''common.txt'', File ''a''),
     (''branch.txt'', File ''a\<newline>b''),
     (''head.txt'', File ''a\<newline>b''),
     (''other.txt'', File ''a\<newline>c'')]"



section \<open>Properties of the commit graph\<close>

lemma prepend_to_append: "prepend_to (a @ b) x = prepend_to a (prepend_to b x)"
  by (cases "(b, x)" rule: prepend_to.cases) auto

lemma for_parents_acc:
  assumes "\<And>c acc. get_all_commits_util n fs d c acc = prepend_to acc (get_all_commits_util n fs d c [])"
  shows "for_parents n fs d ps acc = prepend_to acc (for_parents n fs d ps [])"
proof (induction ps arbitrary: acc)
  case Nil
  show ?case by simp
next
  case (Cons p ps)
  show ?case
  proof (cases "get_all_commits_util n fs d p []")
    case None
    with assms [of p acc] show ?thesis by simp
  next
    case (Some r)
    show ?thesis
    proof (cases r)
      case (Inl e)
      with Some assms [of p acc] show ?thesis by simp
    next
      case (Inr h)
      with Some assms [of p acc]
      have "for_parents n fs d (p # ps) acc = for_parents n fs d ps (acc @ h)" by simp
      also have "\<dots> = prepend_to (acc @ h) (for_parents n fs d ps [])" by (rule Cons.IH)
      also have "\<dots> = prepend_to acc (prepend_to h (for_parents n fs d ps []))"
        by (rule prepend_to_append)
      also have "prepend_to h (for_parents n fs d ps []) = for_parents n fs d ps h"
        by (rule Cons.IH [symmetric])
      also have "for_parents n fs d ps h = for_parents n fs d (p # ps) []"
        using Some Inr by simp
      finally show ?thesis .
    qed
  qed
qed

lemma util_acc:
  "get_all_commits_util n fs d c acc = prepend_to acc (get_all_commits_util n fs d c [])"
proof (induction n arbitrary: c acc)
  case 0
  show ?case by simp
next
  case (Suc n)
  have fp: "\<And>ps a. for_parents n fs d ps a = prepend_to a (for_parents n fs d ps [])"
    by (rule for_parents_acc) (rule Suc.IH)
  show ?case
  proof (cases "get_parents fs d c")
    case (Inl e)
    then show ?thesis by simp
  next
    case (Inr ps)
    show ?thesis
    proof (cases "ps = []")
      case True
      with Inr show ?thesis by simp
    next
      case False
      have a: "prepend_to (acc @ [c]) x = prepend_to acc (prepend_to [c] x)" for x
        by (rule prepend_to_append)
      show ?thesis
        using Inr False fp [of ps "acc @ [c]"] fp [of ps "[c]"]
          Suc.IH [of "hd ps" "acc @ [c]"] Suc.IH [of "hd ps" "[c]"]
        by (simp add: a)
    qed
  qed
qed

lemma for_parents_concat:
  assumes "list_all2 (\<lambda>p h. get_all_commits_util n fs d p [] = Some (Inr h)) ps hs"
  shows "for_parents n fs d ps acc = Some (Inr (acc @ concat hs))"
  using assms
proof (induction ps hs arbitrary: acc rule: list_all2_induct)
  case Nil
  show ?case by simp
next
  case (Cons p ps h hs)
  have "get_all_commits_util n fs d p acc = Some (Inr (acc @ h))"
    using util_acc [of n fs d p acc] Cons.hyps(1) by simp
  then show ?case using Cons.IH [of "acc @ h"] by simp
qed

lemma util_preorder_aux:
  assumes "get_parents fs d c = Inr ps"
    and "list_all2 (\<lambda>p h. get_all_commits_util n fs d p [] = Some (Inr h)) ps hs"
  shows "get_all_commits_util (Suc n) fs d c acc = Some (Inr (acc @ c # concat hs))"
proof (cases "ps = []")
  case True
  with assms show ?thesis by simp
next
  case False
  show ?thesis
  proof (cases "length ps > 1")
    case True
    with assms(1) False for_parents_concat [OF assms(2), of "acc @ [c]"] show ?thesis by simp
  next
    case single: False
    with False obtain p where ps: "ps = [p]" by (cases ps) auto
    with assms(2) obtain h where hs: "hs = [h]" "get_all_commits_util n fs d p [] = Some (Inr h)"
      by (auto simp: list_all2_Cons1)
    have "get_all_commits_util n fs d p (acc @ [c]) = Some (Inr ((acc @ [c]) @ h))"
      using util_acc [of n fs d p "acc @ [c]"] hs(2) by simp
    with assms(1) ps hs show ?thesis by simp
  qed
qed

lemma scan_common_fold:
  "fold (\<lambda>commit_id common_commit. if P commit_id then Some commit_id else common_commit) xs init
   = (case filter P xs of [] \<Rightarrow> init | y # ys \<Rightarrow> Some (last (y # ys)))"
  by (induction xs rule: rev_induct) (auto split: list.splits)


















text \<open>
  Claim C6.  The walk appends the current commit and then the walks of its parents, in
  the order the metadata lists them, to the commits collected so far; nothing is removed
  or merged, so a commit reachable along two parents is listed once per path (the root of
  the diamond is listed twice).
\<close>

theorem collect_history_preorder:
  assumes "get_parents fs images_dir c = Inr ps"
    and "list_all2 (\<lambda>p h. get_all_commits_util n fs images_dir p [] = Some (Inr h)) ps hs"
  shows "get_all_commits_util (Suc n) fs images_dir c commits = Some (Inr (commits @ c # concat hs))
       \<and> get_all_commits (Suc n) fs images_dir (Some c) = Some (Inr (c # concat hs))"
  using util_preorder_aux [OF assms] by (simp add: get_all_commits_def)

theorem collect_history_preorder_witness:
  "get_parents diamond wit_images ''m'' = Inr [''a'', ''b'']
   \<and> list_all2 (\<lambda>p h. get_all_commits_util 2 diamond wit_images p [] = Some (Inr h))
        [''a'', ''b''] [[''a'', ''r''], [''b'', ''r'']]
   \<and> get_all_commits_util 3 diamond wit_images ''m'' [] = Some (Inr [''m'', ''a'', ''r'', ''b'', ''r''])
   \<and> count_list [''m'', ''a'', ''r'', ''b'', ''r''] ''r'' = 2"
proof -
  have p: "get_parents diamond wit_images ''m'' = Inr [''a'', ''b'']" by code_simp
  have h: "list_all2 (\<lambda>p h. get_all_commits_util 2 diamond wit_images p [] = Some (Inr h))
        [''a'', ''b''] [[''a'', ''r''], [''b'', ''r'']]" by code_simp
  have s: "Suc 2 = 3" by simp
  show ?thesis using collect_history_preorder [OF p h, of "[]"] p h by (simp add: s)
qed

lemma scan_common_last:
  "scan_common src_commits head_commits
     = (case filter (\<lambda>c. c \<in> set head_commits) src_commits of
          [] \<Rightarrow> None | y # ys \<Rightarrow> Some (last (y # ys)))"
  unfolding scan_common_def by (rule scan_common_fold)

text \<open>
  Claim C1.  The search of \<open>merge\<close> does not stop at the first commit of the source history
  that is in the head history: on the chain \<open>id_r\<close>, \<open>id_h\<close>, \<open>id_s\<close> with the head at \<open>id_h\<close>
  and the source at \<open>id_s\<close>, the first such commit is \<open>id_h\<close> and the search gives \<open>id_r\<close>, the last one (as
  \<open>scan_common_last\<close> says of every pair of histories).
\<close>

theorem merge_base_takes_last_match:
  "get_all_commits 3 chain wit_images (Some id_s) = Some (Inr [id_s, id_h, id_r])
   \<and> get_all_commits 3 chain wit_images None = Some (Inr [id_h, id_r])
   \<and> find_merge_base 3 chain wit_images id_s = Some (Inr (Some id_r))
   \<and> scan_common [id_s, id_h, id_r] [id_h, id_r] = Some id_r
   \<and> filter (\<lambda>c. c \<in> set [id_h, id_r]) [id_s, id_h, id_r] = [id_h, id_r]"
  by code_simp


section \<open>Properties of the three-way merge of one file\<close>

declare merge_loop.simps [simp del]


lemma merge_loop_short_ancestor:
  assumes "length c < length b" "length c < length h"
    and "\<forall>j<length c. \<not> (c ! j \<noteq> h ! j \<and> c ! j \<noteq> b ! j)"
    and "i \<le> length c"
  shows "merge_loop c b h i m = Inl IndexError"
  using assms(4)
proof (induction "length c - i" arbitrary: i m)
  case 0
  then have "i = length c" by simp
  with assms show ?case
    by (subst merge_loop.simps) (simp add: merge_line_def)
next
  case (Suc d)
  then have i: "i < length c" "Suc i \<le> length c" "d = length c - Suc i" by simp_all
  have rec: "merge_loop c b h (Suc i) m' = Inl IndexError" for m'
    using Suc.hyps(1) [OF i(3) i(2)] .
  from i assms have "i < length b" "i < length h" "\<not> (c ! i \<noteq> h ! i \<and> c ! i \<noteq> b ! i)" by simp_all
  with i(1) show ?case
    by (subst merge_loop.simps) (auto simp add: merge_line_def rec Let_def)
qed

text \<open>The result when no index fails.\<close>

lemma merge_loop_lines:
  assumes "\<forall>j. i \<le> j \<and> j < max (length b) (length h) \<longrightarrow> merge_line c b h j = Inr (l j)"
  shows "merge_loop c b h i m = Inr (m @ map l [i..<max (length b) (length h)])"
  using assms
proof (induction "max (length b) (length h) - i" arbitrary: i m)
  case 0
  then have "\<not> (i < length b \<or> i < length h)" by auto
  moreover from 0 have "[i..<max (length b) (length h)] = []" by simp
  ultimately show ?case by (subst merge_loop.simps) simp
next
  case (Suc d)
  then have lt: "i < max (length b) (length h)" by simp
  then have cond: "i < length b \<or> i < length h" by auto
  have line: "merge_line c b h i = Inr (l i)" using Suc.prems lt by simp
  have "merge_loop c b h (Suc i) (m @ [l i]) = Inr ((m @ [l i]) @ map l [Suc i..<max (length b) (length h)])"
    using Suc.hyps(2) Suc.prems by (intro Suc.hyps(1)) auto
  then show ?case using cond line lt
    by (subst merge_loop.simps) (simp add: upt_conv_Cons)
qed


text \<open>Where the ancestor has a line at every index both versions have, and no conflict.\<close>

lemma three_way_merge_lines:
  assumes "min (length b) (length h) \<le> length c"
    and "\<forall>i<min (length b) (length h). \<not> (c ! i \<noteq> h ! i \<and> c ! i \<noteq> b ! i)"
  shows "merge_loop c b h 0 [] =
           Inr (map (\<lambda>i. if \<not> i < length b then h ! i
                          else if \<not> i < length h then b ! i
                          else if c ! i = h ! i \<and> c ! i \<noteq> b ! i then b ! i
                          else h ! i)
                    [0..<max (length b) (length h)])"
proof -
  let ?l = "\<lambda>i. if \<not> i < length b then h ! i
                 else if \<not> i < length h then b ! i
                 else if c ! i = h ! i \<and> c ! i \<noteq> b ! i then b ! i
                 else h ! i"
  have "\<forall>j. 0 \<le> j \<and> j < max (length b) (length h) \<longrightarrow> merge_line c b h j = Inr (?l j)"
  proof (intro allI impI)
    fix j assume j: "0 \<le> j \<and> j < max (length b) (length h)"
    show "merge_line c b h j = Inr (?l j)"
    proof (cases "j < length b \<and> j < length h")
      case True
      then have "j < length c" using assms(1) by arith
      moreover have "\<not> (c ! j \<noteq> h ! j \<and> c ! j \<noteq> b ! j)" using assms(2) True by simp
      ultimately show ?thesis using True by (auto simp: merge_line_def Let_def)
    next
      case False
      then show ?thesis by (auto simp: merge_line_def)
    qed
  qed
  from merge_loop_lines [OF this, of "[]"] show ?thesis by simp
qed




text \<open>
  Claim C4.  The ancestor has one line, and the branch and the head both have the same
  two lines.  At index 1 neither side lacks a line, so the claim gives the head's line
  (or, reading a missing ancestor line as a differing one, a merge conflict); the code
  reads \<open>common_content[1]\<close> and raises \<open>IndexError\<close>, which is neither.
\<close>

theorem merge_line_short_ancestor:
  "merge_common_changes three_files [''common.txt''] [''branch.txt''] [''head.txt''] [''merged.txt'']
     = (Some IndexError, three_files)
   \<and> splitlines ''a'' = [''a'']
   \<and> splitlines ''a\<newline>b'' = [''a'', ''b'']
   \<and> merge_line [''a''] [''a'', ''b''] [''a'', ''b''] 1 = Inl IndexError"
  by code_simp

text \<open>
  Claim C10.  When the ancestor has fewer lines than the branch and fewer than the head,
  and no index of the ancestor holds a conflict, the loop reaches the first index past
  the ancestor's end and raises \<open>IndexError\<close>: neither merged output nor a merge conflict.
\<close>

theorem three_way_merge_partial:
  assumes "read_file fs common_file = Inr ct"
    and "read_file fs branch_file = Inr bt"
    and "read_file fs head_file = Inr ht"
    and "length (splitlines ct) < length (splitlines bt)"
    and "length (splitlines ct) < length (splitlines ht)"
    and "\<forall>j<length (splitlines ct).
           \<not> (splitlines ct ! j \<noteq> splitlines ht ! j \<and> splitlines ct ! j \<noteq> splitlines bt ! j)"
  shows "merge_loop (splitlines ct) (splitlines bt) (splitlines ht) 0 [] = Inl IndexError
       \<and> merge_common_changes fs common_file branch_file head_file dst = (Some IndexError, fs)"
proof -
  have "merge_loop (splitlines ct) (splitlines bt) (splitlines ht) 0 [] = Inl IndexError"
    using assms(4-6) by (intro merge_loop_short_ancestor) simp_all
  with assms(1-3) show ?thesis by (simp add: merge_common_changes_def)
qed

theorem three_way_merge_partial_witness:
  "merge_loop [''a''] [''a'', ''b''] [''a'', ''c''] 0 [] = Inl IndexError
   \<and> merge_common_changes three_files [''common.txt''] [''branch.txt''] [''other.txt'']
        [''merged.txt''] = (Some IndexError, three_files)"
proof -
  have r: "read_file three_files [''common.txt''] = Inr ''a''"
    "read_file three_files [''branch.txt''] = Inr ''a\<newline>b''"
    "read_file three_files [''other.txt''] = Inr ''a\<newline>c''"
    by code_simp+
  show ?thesis
    using three_way_merge_partial [OF r, of "[''merged.txt'']"] by (simp add: is_linebreak_def)
qed

section \<open>Properties of the commands\<close>










lemma splitlines_Nil_iff: "splitlines a = [] \<longleftrightarrow> a = []"
  by (cases a) (auto split: list.splits)

lemma splitlines_append_LF:
  "splitlines (a @ CHR 0x0A # b)
   = splitlines a @ (if a = [] \<or> is_linebreak (last a) then [[]] else []) @ splitlines b"
proof (induction a)
  case Nil
  show ?case by (simp add: is_linebreak_def)
next
  case (Cons c a)
  show ?case
  proof (cases "a = []")
    case True
    then show ?thesis by (simp add: is_linebreak_def)
  next
    case False
    then obtain w ws where "splitlines a = w # ws"
      using splitlines_Nil_iff [of a] by (cases "splitlines a") auto
    with False Cons show ?thesis by simp
  qed
qed

lemma splitlines_no_break:
  "\<forall>c\<in>set s. \<not> is_linebreak c \<Longrightarrow> s \<noteq> [] \<Longrightarrow> splitlines s = [s]"
proof (induction s)
  case Nil
  then show ?case by simp
next
  case (Cons c s)
  then show ?case by (cases "s = []") auto
qed





lemma split_no_sep: "sep \<notin> set s \<Longrightarrow> split sep s = [s]"
  by (induction s) auto

lemma split_first: "sep \<notin> set a \<Longrightarrow> split sep (a @ sep # b) = a # split sep b"
  by (induction a) auto







text \<open>
  The strings of the untracked files start with the slash of the absolute home path, and
  no name \<open>os.listdir\<close> gives holds a slash.
\<close>

lemma path_str_absolute:
  "home_str \<noteq> [] \<Longrightarrow> hd home_str = CHR ''/'' \<Longrightarrow>
     path_str home_str p \<noteq> [] \<and> hd (path_str home_str p) = CHR ''/''"
proof (induction p arbitrary: home_str)
  case Nil
  then show ?case by (simp add: path_str_def)
next
  case (Cons x p)
  have "os_path_join home_str x \<noteq> [] \<and> hd (os_path_join home_str x) = CHR ''/''"
    using Cons.prems by (cases x) (auto simp: os_path_join_def)
  then have "path_str (os_path_join home_str x) p \<noteq> []
      \<and> hd (path_str (os_path_join home_str x) p) = CHR ''/''"
    using Cons.IH by blast
  then show ?case by (simp add: path_str_def)
qed

lemma ignore_never_matches:
  assumes "home_str \<noteq> []" "hd home_str = CHR ''/''" "CHR ''/'' \<notin> set item"
  shows "item \<notin> set (map (path_str home_str) untracked_files)"
proof
  assume "item \<in> set (map (path_str home_str) untracked_files)"
  then obtain p where "item = path_str home_str p" by auto
  with path_str_absolute [OF assms(1,2), of p] have "item \<noteq> []" "hd item = CHR ''/''" by simp_all
  then have "CHR ''/'' \<in> set item" by (cases item) auto
  with assms(3) show False by simp
qed

text \<open>
  Claim C2.  \<open>notes.txt\<close> is in the working tree and not in the staging area, the repository
  is clean, and \<open>status\<close> lists the file as untracked.  The list passed as \<open>ignore\<close> holds
  the joined paths (\<open>/repo/notes.txt\<close>), \<open>execute_checkout\<close> looks the bare name
  \<open>notes.txt\<close> up in it, and the checkout of \<open>feature\<close> overwrites the file.
\<close>

theorem checkout_overwrites_untracked:
  "status notes_repo True = Inr (None, Some ([], [], [[''.wit''], [''notes.txt'']]))
   \<and> map (path_str ''/repo'') [[''.wit''], [''notes.txt'']] = [''/repo/.wit'', ''/repo/notes.txt'']
   \<and> read_file notes_repo [''notes.txt''] = Inr ''my private notes''
   \<and> lookup notes_repo (wit_staging @ [''notes.txt'']) = None
   \<and> checkout ''/repo'' notes_repo ''feature'' = (CheckoutCompleted, notes_repo_after)
   \<and> read_file notes_repo_after [''notes.txt''] = Inr ''from feature''"
  by code_simp

section \<open>Commit without change\<close>
















lemma splitlines_join_hd:
  assumes "l0 \<noteq> []" "\<forall>c\<in>set l0. \<not> is_linebreak c"
  shows "\<exists>ls'. splitlines (join ''\<newline>'' (l0 # ls)) = l0 # ls'"
proof (cases ls)
  case Nil
  with assms show ?thesis by (simp add: splitlines_no_break)
next
  case (Cons y ys)
  have "join ''\<newline>'' (l0 # ls) = l0 @ CHR 0x0A # join ''\<newline>'' (y # ys)"
    using Cons by simp
  moreover have "\<not> is_linebreak (last l0)" using assms by simp
  ultimately show ?thesis
    using assms splitlines_append_LF [of l0 "join ''\<newline>'' (y # ys)"]
    by (simp add: splitlines_no_break)
qed

lemma commit_id_chars:
  assumes "commit_id_ok commit_id"
  shows "CHR ''='' \<notin> set commit_id" "\<forall>c\<in>set commit_id. \<not> is_linebreak c"
    "commit_id \<noteq> []" "commit_id \<noteq> ''references.txt''"
    "commit_id @ ''.txt'' \<noteq> ''references.txt''" "commit_id @ ''.txt'' \<noteq> commit_id"
proof -
  have sub: "set commit_id \<subseteq> set ''123456789abcdef''" and len: "length commit_id = 40"
    using assms by (simp_all add: commit_id_ok_def COMMIT_ID_CHARS_def COMMIT_ID_LENGTH_def)
  show "CHR ''='' \<notin> set commit_id" using sub by auto
  show "\<forall>c\<in>set commit_id. \<not> is_linebreak c" using sub by (auto simp: is_linebreak_def)
  show "commit_id \<noteq> []" using len by auto
  show "commit_id \<noteq> ''references.txt''" using len by auto
  show "commit_id @ ''.txt'' \<noteq> ''references.txt''" using len by auto
  show "commit_id @ ''.txt'' \<noteq> commit_id" by simp
qed

lemma head_line:
  assumes "commit_id_ok commit_id"
  shows "\<exists>ls'. splitlines (join ''\<newline>'' ((''HEAD'' @ ''='' @ commit_id) # ls))
            = (''HEAD'' @ ''='' @ commit_id) # ls'"
    and "split CHR ''='' (''HEAD'' @ ''='' @ commit_id) = [''HEAD'', commit_id]"
proof -
  show "\<exists>ls'. splitlines (join ''\<newline>'' ((''HEAD'' @ ''='' @ commit_id) # ls))
            = (''HEAD'' @ ''='' @ commit_id) # ls'"
    using commit_id_chars(2) [OF assms]
    by (intro splitlines_join_hd) (auto simp: is_linebreak_def)
  have "split CHR ''='' (''HEAD'' @ CHR ''='' # commit_id) = ''HEAD'' # split CHR ''='' commit_id"
    by (rule split_first) simp
  then show "split CHR ''='' (''HEAD'' @ ''='' @ commit_id) = [''HEAD'', commit_id]"
    using commit_id_chars(1) [OF assms] by (simp add: split_no_sep)
qed

lemma update_head_key:
  "AList.update k' v' ((k, v) # acc) = (k, if k = k' then v' else v) # (if k = k' then acc else AList.update k' v' acc)"
  by simp




















end
